theory Spec2Isabelle
  imports Main
begin

section \<open>Python values\<close>

text \<open>
  A Python \<open>bytes\<close> object is a list of 8-bit characters; a Python \<open>str\<close> is a list of
  Unicode code points.  ASCII literals of the source are written as HOL strings and
  lifted to \<open>str\<close> with \<open>u\<close>.
\<close>

type_synonym bytes = "char list"
type_synonym ustr = "nat list"

definition u :: "string \<Rightarrow> ustr" where
  "u s = map of_char s"

text \<open>\<open>s.endswith(suffix)\<close>.\<close>

definition endswith :: "ustr \<Rightarrow> ustr \<Rightarrow> bool" where
  "endswith s suffix =
     (length suffix \<le> length s \<and> drop (length s - length suffix) s = suffix)"

text \<open>
  \<open>str.isspace\<close> on one code point: the code points that \<open>str.strip()\<close> removes
  when it is called without an argument.
\<close>

definition isspace :: "nat \<Rightarrow> bool" where
  "isspace c =
     ((9 \<le> c \<and> c \<le> 13) \<or> (28 \<le> c \<and> c \<le> 32) \<or> c = 133 \<or> c = 160 \<or> c = 5760 \<or>
      (8192 \<le> c \<and> c \<le> 8202) \<or> c = 8232 \<or> c = 8233 \<or> c = 8239 \<or> c = 8287 \<or>
      c = 12288)"

text \<open>\<open>s.strip()\<close>.\<close>

definition strip :: "ustr \<Rightarrow> ustr" where
  "strip s = rev (dropWhile isspace (rev (dropWhile isspace s)))"

text \<open>\<open>s.split("\n")\<close>: the separator is the single code point 10; the result is never empty.\<close>

fun split :: "ustr \<Rightarrow> ustr list" where
  "split [] = [[]]"
| "split (c # cs) =
     (if c = 10 then [] # split cs
      else (case split cs of [] \<Rightarrow> [[c]] | l # ls \<Rightarrow> (c # l) # ls))"

text \<open>
  \<open>b.decode("utf-8")\<close> with the default strict error handling: \<open>None\<close> stands for
  \<open>UnicodeDecodeError\<close>.  Overlong forms, surrogates and code points above
  \<open>0x10FFFF\<close> are rejected, as are stray continuation bytes and truncated sequences.
\<close>

definition cont :: "char \<Rightarrow> bool" where
  "cont c = (128 \<le> (of_char c :: nat) \<and> (of_char c :: nat) < 192)"

definition low6 :: "char \<Rightarrow> nat" where
  "low6 c = of_char c - 128"

fun decode_utf8 :: "bytes \<Rightarrow> ustr option" where
  "decode_utf8 [] = Some []"
| "decode_utf8 (b # bs) =
     (let n = (of_char b :: nat) in
      if n < 128 then map_option ((#) n) (decode_utf8 bs)
      else if 192 \<le> n \<and> n < 224 then
        (case bs of
           c1 # r \<Rightarrow>
             (let cp = (n - 192) * 64 + low6 c1 in
              if cont c1 \<and> 128 \<le> cp then map_option ((#) cp) (decode_utf8 r) else None)
         | _ \<Rightarrow> None)
      else if 224 \<le> n \<and> n < 240 then
        (case bs of
           c1 # c2 # r \<Rightarrow>
             (let cp = ((n - 224) * 64 + low6 c1) * 64 + low6 c2 in
              if cont c1 \<and> cont c2 \<and> 2048 \<le> cp \<and> \<not> (55296 \<le> cp \<and> cp \<le> 57343)
              then map_option ((#) cp) (decode_utf8 r) else None)
         | _ \<Rightarrow> None)
      else if 240 \<le> n \<and> n < 248 then
        (case bs of
           c1 # c2 # c3 # r \<Rightarrow>
             (let cp = (((n - 240) * 64 + low6 c1) * 64 + low6 c2) * 64 + low6 c3 in
              if cont c1 \<and> cont c2 \<and> cont c3 \<and> 65536 \<le> cp \<and> cp \<le> 1114111
              then map_option ((#) cp) (decode_utf8 r) else None)
         | _ \<Rightarrow> None)
      else None)"

text \<open>\<open>str(n)\<close> for a length, as the f-string of \<open>import_questions\<close> formats it.\<close>

definition digit_char :: "nat \<Rightarrow> char" where
  "digit_char d = ''0123456789'' ! d"

function str_nat :: "nat \<Rightarrow> string" where
  "str_nat n =
     (if n < 10 then [digit_char n] else str_nat (n div 10) @ [digit_char (n mod 10)])"
  by pat_completeness auto
termination
  by (relation "measure id") auto

declare str_nat.simps [simp del]


section \<open>Data model\<close>

text \<open>
  The tables of \<open>models.py\<close> with the columns that \<open>main.py\<close> reads and writes, the
  task queue of the deferred-execution substrate, and the whole state that a request
  handler can change.
\<close>

record user =
  u_id :: int
  u_email :: ustr
  u_hashed_password :: ustr

record question =
  q_id :: int
  q_question_text :: ustr
  q_user_id :: int

record answer =
  a_id :: int
  a_question_id :: int
  a_answer_text :: ustr

text \<open>One accepted call of \<open>apply_async(args, countdown=...)\<close>.\<close>

record scheduled =
  args :: "int \<times> int"
  countdown :: int

record state =
  users :: "user list"
  questions :: "question list"
  answers :: "answer list"
  broker :: "scheduled list"

text \<open>
  Everything a handler can raise: \<open>HTTPException(status_code, detail)\<close>, the two
  built-in exceptions of the expressions in the handlers, and a failure raised inside
  an external library.
\<close>

datatype error =
  HTTPException nat string
| UnicodeDecodeError
| IndexError
| UpstreamError

text \<open>The JSON object a handler returns, one constructor per shape.\<close>

datatype payload =
  Message string
| AccessToken ustr string
| Answer ustr
| Text ustr

type_synonym response = "(error + payload) \<times> state"

text \<open>The request bodies: \<open>UserCreate\<close>, \<open>OAuth2PasswordRequestForm\<close>, \<open>UploadFile\<close>.\<close>

record user_create =
  uc_email :: ustr
  uc_password :: ustr


record upload_file =
  filename :: ustr
  file_content :: bytes

text \<open>
  The collaborators outside the repository's handlers, as parameters: the password and
  token utilities, the document parser (the texts of the paragraphs, in order), the
  chat-completion call (the message contents of the choices, in order), the image
  decoder and the text recogniser.  \<open>None\<close> is an exception raised inside the library.
\<close>

record 'img externals =
  get_password_hash :: "ustr \<Rightarrow> ustr"
  verify_password :: "ustr \<Rightarrow> ustr \<Rightarrow> bool"
  create_access_token :: "ustr \<Rightarrow> ustr"
  Document :: "bytes \<Rightarrow> ustr list option"
  ChatCompletion_create :: "string \<Rightarrow> ustr \<Rightarrow> ustr list option"
  Image_open :: "bytes \<Rightarrow> 'img option"
  image_to_string :: "'img \<Rightarrow> ustr option"


section \<open>Store operations\<close>

text \<open>
  \<open>crud.py\<close> and \<open>tasks.py\<close> are not among the sources; what \<open>main.py\<close> calls from them
  is modelled here on the lists of the state.
\<close>

text \<open>
  Modelled from the spec: the id that the store generates for a new record, unique
  among the ids of its table (the spec: "id (unique, generated)").
\<close>

definition next_id :: "int list \<Rightarrow> int" where
  "next_id ids = 1 + fold max ids 0"

text \<open>
  Modelled from the spec: \<open>get_user_by_email\<close> of \<open>crud.py\<close>, the user whose email is the
  given one, compared as stored (the spec: "email (unique, case-sensitive as stored)"),
  or \<open>None\<close>.
\<close>

definition get_user_by_email :: "state \<Rightarrow> ustr \<Rightarrow> user option" where
  "get_user_by_email db email = find (\<lambda>usr. u_email usr = email) (users db)"

text \<open>
  Modelled from the spec: \<open>create_user\<close> of \<open>crud.py\<close>, which adds one user with a
  generated id, the email and the password hash.
\<close>

definition create_user :: "state \<Rightarrow> ustr \<Rightarrow> ustr \<Rightarrow> user \<times> state" where
  "create_user db email hashed_password =
     (let usr = \<lparr>u_id = next_id (map u_id (users db)), u_email = email,
                 u_hashed_password = hashed_password\<rparr>
      in (usr, db\<lparr>users := users db @ [usr]\<rparr>))"

text \<open>
  Modelled from the spec: \<open>create_question\<close> of \<open>crud.py\<close>, which adds one question with
  a generated id, the text and the owner it is given.
\<close>

definition create_question :: "state \<Rightarrow> ustr \<Rightarrow> int \<Rightarrow> question \<times> state" where
  "create_question db question_text user_id =
     (let q = \<lparr>q_id = next_id (map q_id (questions db)), q_question_text = question_text,
               q_user_id = user_id\<rparr>
      in (q, db\<lparr>questions := questions db @ [q]\<rparr>))"

text \<open>
  Modelled from the spec: \<open>create_answer\<close> of \<open>crud.py\<close>, which adds one answer with a
  generated id, the question id and the text it is given.
\<close>

definition create_answer :: "state \<Rightarrow> int \<Rightarrow> ustr \<Rightarrow> answer \<times> state" where
  "create_answer db question_id answer_text =
     (let a = \<lparr>a_id = next_id (map a_id (answers db)), a_question_id = question_id,
               a_answer_text = answer_text\<rparr>
      in (a, db\<lparr>answers := answers db @ [a]\<rparr>))"

text \<open>
  Modelled from the spec: \<open>schedule_notification.apply_async\<close> of \<open>tasks.py\<close>.  The
  substrate accepts a payload and a countdown in seconds; accepting is all that the
  request path sees of it.
\<close>

definition apply_async :: "int \<times> int \<Rightarrow> int \<Rightarrow> state \<Rightarrow> state" where
  "apply_async task_args cd s = s\<lparr>broker := broker s @ [\<lparr>args = task_args, countdown = cd\<rparr>]\<rparr>"


section \<open>Request handlers\<close>

text \<open>\<open>POST /register\<close>.\<close>

definition register :: "'img externals \<Rightarrow> user_create \<Rightarrow> state \<Rightarrow> response" where
  "register ext usr db =
     (case get_user_by_email db (uc_email usr) of
        Some db_user \<Rightarrow> (Inl (HTTPException 400 ''Email already registered''), db)
      | None \<Rightarrow>
          (let hashed_password = get_password_hash ext (uc_password usr);
               (db_user, db') = create_user db (uc_email usr) hashed_password
           in (Inr (Message ''User created successfully''), db')))"


text \<open>
  \<open>POST /import-questions\<close>.  The loop over the parsed texts creates one question per
  text, each with \<open>user_id=1\<close>.
\<close>

fun create_questions :: "ustr list \<Rightarrow> state \<Rightarrow> state" where
  "create_questions [] db = db"
| "create_questions (question_text # rest) db =
     create_questions rest (snd (create_question db question_text 1))"

definition imported :: "ustr list \<Rightarrow> state \<Rightarrow> response" where
  "imported qs db =
     (Inr (Message (''Imported '' @ str_nat (length qs) @ '' questions'')),
      create_questions qs db)"

definition import_questions :: "'img externals \<Rightarrow> upload_file \<Rightarrow> state \<Rightarrow> response" where
  "import_questions ext f db =
     (if endswith (filename f) (u ''.txt'') then
        (case decode_utf8 (file_content f) of
           None \<Rightarrow> (Inl UnicodeDecodeError, db)
         | Some content \<Rightarrow>
             imported (map strip (filter (\<lambda>line. strip line \<noteq> []) (split content))) db)
      else if endswith (filename f) (u ''.docx'') then
        (case Document ext (file_content f) of
           None \<Rightarrow> (Inl UpstreamError, db)
         | Some paragraphs \<Rightarrow>
             imported (filter (\<lambda>para. strip para \<noteq> []) paragraphs) db)
      else (Inl (HTTPException 400 ''Unsupported file format''), db))"

text \<open>\<open>POST /generate-answer\<close>.\<close>

definition generate_answer :: "'img externals \<Rightarrow> int \<Rightarrow> state \<Rightarrow> response" where
  "generate_answer ext question_id db =
     (case find (\<lambda>q. q_id q = question_id) (questions db) of
        None \<Rightarrow> (Inl (HTTPException 404 ''Question not found''), db)
      | Some q \<Rightarrow>
          (case ChatCompletion_create ext ''gpt-3.5-turbo'' (q_question_text q) of
             None \<Rightarrow> (Inl UpstreamError, db)
           | Some choices \<Rightarrow>
               (case choices of
                  [] \<Rightarrow> (Inl IndexError, db)
                | answer_text # _ \<Rightarrow>
                    (Inr (Answer answer_text),
                     snd (create_answer db question_id answer_text)))))"


text \<open>\<open>POST /start-review\<close>.\<close>

definition intervals :: "int list" where
  "intervals = [20 * 60, 8 * 3600, 24 * 3600]"

fun schedule_all :: "int \<Rightarrow> int list \<Rightarrow> state \<Rightarrow> state" where
  "schedule_all question_id [] s = s"
| "schedule_all question_id (interval # rest) s =
     schedule_all question_id rest (apply_async (question_id, interval) interval s)"

definition start_review :: "int \<Rightarrow> state \<Rightarrow> response" where
  "start_review question_id db =
     (Inr (Message ''Review scheduled''), schedule_all question_id intervals db)"


section \<open>Routing\<close>





text \<open>\<open>N\<close> successive calls of \<open>start_review\<close> for one question, each on the state the last one left.\<close>

primrec start_review_times :: "nat \<Rightarrow> int \<Rightarrow> state \<Rightarrow> state" where
  "start_review_times 0 question_id s = s"
| "start_review_times (Suc n) question_id s =
     start_review_times n question_id (snd (start_review question_id s))"


section \<open>Concrete inputs\<close>

text \<open>
  A state with empty tables and an empty queue, collaborators whose every call is
  determined (the parser yields three paragraphs, the chat completion echoes the
  question twice), a request for a review that carries no credential, three uploads,
  a registration, a state that holds one question, and a text upload whose lines are
  padded with blanks.
\<close>

definition empty_state :: state where
  "empty_state = \<lparr>users = [], questions = [], answers = [], broker = []\<rparr>"

definition stub_externals :: "unit externals" where
  "stub_externals =
     \<lparr>get_password_hash = rev,
      verify_password = (\<lambda>plain hashed. rev plain = hashed),
      create_access_token = id,
      Document = (\<lambda>b. Some [u ''  x '', u ''   '', u ''y'']),
      ChatCompletion_create = (\<lambda>model content. Some [content @ content]),
      Image_open = (\<lambda>b. None),
      image_to_string = (\<lambda>img. None)\<rparr>"


definition txt_upload :: upload_file where
  "txt_upload = \<lparr>filename = u ''q.txt'', file_content = ''a\<newline>\<newline>b\<newline>''\<rparr>"

definition docx_upload :: upload_file where
  "docx_upload = \<lparr>filename = u ''q.docx'', file_content = []\<rparr>"

definition pdf_upload :: upload_file where
  "pdf_upload = \<lparr>filename = u ''q.pdf'', file_content = ''a\<newline>''\<rparr>"

definition alice :: user_create where
  "alice = \<lparr>uc_email = u ''a@b.c'', uc_password = u ''pw''\<rparr>"

definition stored_state :: state where
  "stored_state =
     \<lparr>users = [],
      questions = [\<lparr>q_id = 1, q_question_text = u ''a'', q_user_id = 1\<rparr>],
      answers = [], broker = []\<rparr>"

definition padded_txt_upload :: upload_file where
  "padded_txt_upload =
     \<lparr>filename = u ''p.txt'', file_content = ''  x \<newline>   \<newline>y''\<rparr>"


section \<open>The review scheduler\<close>

lemma schedule_all_broker:
  "schedule_all question_id ivs s =
     s\<lparr>broker := broker s @ map (\<lambda>i. \<lparr>args = (question_id, i), countdown = i\<rparr>) ivs\<rparr>"
  by (induction ivs arbitrary: s) (simp_all add: apply_async_def)

lemma start_review_broker:
  "broker (snd (start_review question_id s)) =
     broker s @ map (\<lambda>i. \<lparr>args = (question_id, i), countdown = i\<rparr>) intervals"
  by (simp add: start_review_def schedule_all_broker)

lemma length_concat_replicate:
  "length (concat (replicate n xs)) = n * length xs"
  by (induction n) simp_all

text \<open>
  C1.  For every question id and every state, one call of \<open>start_review\<close> appends exactly
  three deferred actions to the queue, with the offsets 1200, 28800 and 86400 seconds in
  that order, each carrying the question id of the call and a countdown equal to its
  offset.  It changes nothing else and returns the message \<open>Review scheduled\<close>; the
  handler only enqueues, so the result does not depend on any action firing.
\<close>

theorem start_review_schedules_three:
  "start_review question_id s =
     (Inr (Message ''Review scheduled''),
      s\<lparr>broker := broker s @
         [\<lparr>args = (question_id, 1200), countdown = 1200\<rparr>,
          \<lparr>args = (question_id, 28800), countdown = 28800\<rparr>,
          \<lparr>args = (question_id, 86400), countdown = 86400\<rparr>]\<rparr>)"
  by (simp add: start_review_def schedule_all_broker intervals_def)

text \<open>
  C2.  For every question id and every \<open>N\<close>, \<open>N\<close> calls of \<open>start_review\<close> append \<open>N\<close> copies
  of the three actions, \<open>3N\<close> deferred actions in all: nothing is deduplicated, and two
  calls for one question leave six actions.
\<close>

theorem start_review_times_count:
  "broker (start_review_times N question_id s) =
     broker s @
     concat (replicate N (map (\<lambda>i. \<lparr>args = (question_id, i), countdown = i\<rparr>) intervals))
   \<and> length (broker (start_review_times N question_id s)) = length (broker s) + 3 * N"
proof (induction N arbitrary: s)
  case 0
  show ?case by simp
next
  case (Suc N)
  have three: "length intervals = 3"
    by (simp add: intervals_def)
  show ?case
    by (simp add: Suc.IH start_review_broker length_concat_replicate three)
qed

text \<open>
  C5.  \<open>start_review\<close> answers \<open>Review scheduled\<close> for every question id and every state,
  whether or not a question with that id is stored: the handler does not look the
  question up, and it raises no error of any kind.
\<close>

theorem start_review_never_fails:
  "fst (start_review question_id s) = Inr (Message ''Review scheduled'') \<and>
   (\<nexists>e. fst (start_review question_id s) = Inl e)"
  by (simp add: start_review_def)


section \<open>Authentication\<close>




section \<open>Importing questions\<close>

lemma create_question_questions:
  "questions (snd (create_question db t uid)) =
     questions db @ [\<lparr>q_id = next_id (map q_id (questions db)), q_question_text = t, q_user_id = uid\<rparr>]"
  by (simp add: create_question_def Let_def)

lemma create_question_other:
  "users (snd (create_question db t uid)) = users db"
  "answers (snd (create_question db t uid)) = answers db"
  "broker (snd (create_question db t uid)) = broker db"
  by (simp_all add: create_question_def Let_def)

lemma create_questions_other:
  "users (create_questions qs db) = users db \<and>
   answers (create_questions qs db) = answers db \<and>
   broker (create_questions qs db) = broker db"
  by (induction qs arbitrary: db) (simp_all add: create_question_other)

lemma create_questions_appends:
  "\<exists>new. questions (create_questions qs db) = questions db @ new \<and>
         map q_question_text new = qs \<and> map q_user_id new = replicate (length qs) 1"
proof (induction qs arbitrary: db)
  case Nil
  show ?case by simp
next
  case (Cons t qs)
  let ?db1 = "snd (create_question db t 1)"
  let ?q = "\<lparr>q_id = next_id (map q_id (questions db)), q_question_text = t, q_user_id = 1\<rparr>"
  from Cons.IH [of ?db1] obtain new where
    new: "questions (create_questions qs ?db1) = questions ?db1 @ new"
      "map q_question_text new = qs" "map q_user_id new = replicate (length qs) 1"
    by (elim exE conjE)
  have a: "questions (create_questions (t # qs) db) = questions db @ (?q # new)"
    using new(1) by (simp add: create_question_questions)
  have b: "map q_question_text (?q # new) = t # qs"
    using new(2) by simp
  have c: "map q_user_id (?q # new) = replicate (length (t # qs)) 1"
    using new(3) by simp
  show ?case
    by (rule exI [of _ "?q # new"]) (intro conjI a b c)
qed

lemma create_questions_take:
  "take (length (questions db)) (questions (create_questions qs db)) = questions db"
proof -
  obtain new where "questions (create_questions qs db) = questions db @ new"
    using create_questions_appends [of qs db] by (elim exE conjE)
  then show ?thesis by simp
qed

lemma create_questions_texts:
  "map q_question_text (drop (length (questions db)) (questions (create_questions qs db))) = qs"
proof -
  obtain new where "questions (create_questions qs db) = questions db @ new"
    "map q_question_text new = qs"
    using create_questions_appends [of qs db] by (elim exE conjE)
  then show ?thesis by simp
qed

lemma create_questions_owner:
  "map q_user_id (drop (length (questions db)) (questions (create_questions qs db))) =
     replicate (length qs) 1"
proof -
  obtain new where "questions (create_questions qs db) = questions db @ new"
    "map q_user_id new = replicate (length qs) 1"
    using create_questions_appends [of qs db] by (elim exE conjE)
  then show ?thesis by simp
qed

lemma create_questions_length:
  "length (questions (create_questions qs db)) = length (questions db) + length qs"
proof -
  obtain new where new: "questions (create_questions qs db) = questions db @ new"
    "map q_question_text new = qs"
    using create_questions_appends [of qs db] by (elim exE conjE)
  have "length new = length qs"
    using new(2) length_map [of q_question_text new] by simp
  then show ?thesis using new(1) by simp
qed

lemma map_replicate_member:
  assumes "map f xs = replicate n c" and "x \<in> set xs"
  shows "f x = c"
proof -
  have "f x \<in> set (map f xs)"
    using assms(2) by simp
  then have "f x \<in> set (replicate n c)"
    by (simp only: assms(1))
  then show ?thesis by simp
qed

lemma import_txt:
  "endswith (filename f) (u ''.txt'') \<Longrightarrow> decode_utf8 (file_content f) = Some content \<Longrightarrow>
   import_questions ext f db =
     imported (map strip (filter (\<lambda>line. strip line \<noteq> []) (split content))) db"
  by (simp add: import_questions_def)

lemma import_txt_undecodable:
  "endswith (filename f) (u ''.txt'') \<Longrightarrow> decode_utf8 (file_content f) = None \<Longrightarrow>
   import_questions ext f db = (Inl UnicodeDecodeError, db)"
  by (simp add: import_questions_def)

lemma import_docx:
  "\<not> endswith (filename f) (u ''.txt'') \<Longrightarrow> endswith (filename f) (u ''.docx'') \<Longrightarrow>
   Document ext (file_content f) = Some paragraphs \<Longrightarrow>
   import_questions ext f db = imported (filter (\<lambda>para. strip para \<noteq> []) paragraphs) db"
  by (simp add: import_questions_def)

lemma import_docx_unparsable:
  "\<not> endswith (filename f) (u ''.txt'') \<Longrightarrow> endswith (filename f) (u ''.docx'') \<Longrightarrow>
   Document ext (file_content f) = None \<Longrightarrow>
   import_questions ext f db = (Inl UpstreamError, db)"
  by (simp add: import_questions_def)

lemma import_other:
  "\<not> endswith (filename f) (u ''.txt'') \<Longrightarrow> \<not> endswith (filename f) (u ''.docx'') \<Longrightarrow>
   import_questions ext f db = (Inl (HTTPException 400 ''Unsupported file format''), db)"
  by (simp add: import_questions_def)

lemma import_questions_cases:
  "snd (import_questions ext f db) = db \<or>
   (\<exists>qs. snd (import_questions ext f db) = create_questions qs db)"
proof (cases "endswith (filename f) (u ''.txt'')")
  case True
  show ?thesis
  proof (cases "decode_utf8 (file_content f)")
    case None
    with True show ?thesis by (simp add: import_txt_undecodable)
  next
    case (Some content)
    with True show ?thesis
      by (simp add: import_txt imported_def) (rule disjI2, rule exI, rule refl)
  qed
next
  case False
  show ?thesis
  proof (cases "endswith (filename f) (u ''.docx'')")
    case docx: True
    show ?thesis
    proof (cases "Document ext (file_content f)")
      case None
      with False docx show ?thesis by (simp add: import_docx_unparsable)
    next
      case (Some paragraphs)
      with False docx show ?thesis
        by (simp add: import_docx imported_def) (rule disjI2, rule exI, rule refl)
    qed
  next
    case other: False
    with False show ?thesis by (simp add: import_other)
  qed
qed

text \<open>
  C3.  Whatever the file and whatever the request, an import leaves the stored
  questions as they were and gives every question it adds the owner id 1: this holds
  for \<open>.txt\<close> and for \<open>.docx\<close> uploads alike, and the handler has no parameter
  through which the identity of the caller could reach it.
\<close>

theorem import_questions_owner:
  "take (length (questions db)) (questions (snd (import_questions ext f db))) = questions db \<and>
   (\<forall>q \<in> set (drop (length (questions db)) (questions (snd (import_questions ext f db)))).
      q_user_id q = 1)"
proof -
  from import_questions_cases [of ext f db]
  show ?thesis
  proof (elim disjE exE)
    assume "snd (import_questions ext f db) = db"
    then show ?thesis by simp
  next
    fix qs
    assume eq: "snd (import_questions ext f db) = create_questions qs db"
    have "\<forall>q \<in> set (drop (length (questions db)) (questions (create_questions qs db))).
        q_user_id q = 1"
      using map_replicate_member [OF create_questions_owner [of db qs]] by simp
    then show ?thesis
      by (simp add: eq create_questions_take)
  qed
qed



lemma decode_ab:
  "decode_utf8 ''a\<newline>\<newline>b\<newline>'' = Some (u ''a\<newline>\<newline>b\<newline>'')"
  by (simp add: u_def)

lemma split_ab: "split (u ''a\<newline>\<newline>b\<newline>'') = [u ''a'', [], u ''b'', []]"
  by (simp add: u_def)

lemma strip_ab: "strip (u ''a'') = u ''a''" "strip (u ''b'') = u ''b''" "strip [] = []"
  by (simp_all add: strip_def isspace_def u_def)

lemma u_nonempty: "u ''a'' \<noteq> []" "u ''b'' \<noteq> []"
  by (simp_all add: u_def)

lemma import_txt_ab:
  assumes "endswith (filename f) (u ''.txt'')"
    and "file_content f = ''a\<newline>\<newline>b\<newline>''"
  shows "import_questions ext f db = imported [u ''a'', u ''b''] db"
proof -
  have "decode_utf8 (file_content f) = Some (u ''a\<newline>\<newline>b\<newline>'')"
    by (simp only: assms(2) decode_ab)
  from import_txt [OF assms(1) this]
  show ?thesis
    by (simp add: split_ab strip_ab u_nonempty)
qed

lemma imported_two:
  "fst (imported [s, t] db) = Inr (Message ''Imported 2 questions'')"
  by (simp add: imported_def str_nat.simps digit_char_def)

lemma snd_imported: "snd (imported qs db) = create_questions qs db"
  by (simp add: imported_def)

text \<open>
  C6.  Importing a file whose name ends in \<open>.txt\<close> and whose content is the bytes of
  \<open>a\n\nb\n\<close> answers \<open>Imported 2 questions\<close> and adds exactly two questions, with the
  texts \<open>a\<close> and \<open>b\<close> in that order: the bytes decode as UTF-8, the text is split at
  the line feeds, and the two blank lines are dropped.
\<close>

theorem import_txt_blank_lines_dropped:
  assumes "endswith (filename f) (u ''.txt'')"
    and "file_content f = ''a\<newline>\<newline>b\<newline>''"
  shows "fst (import_questions ext f db) = Inr (Message ''Imported 2 questions'') \<and>
     length (questions (snd (import_questions ext f db))) = length (questions db) + 2 \<and>
     take (length (questions db)) (questions (snd (import_questions ext f db))) = questions db \<and>
     map q_question_text
       (drop (length (questions db)) (questions (snd (import_questions ext f db)))) =
       [u ''a'', u ''b'']"
  by (simp del: create_questions.simps
      add: import_txt_ab [OF assms] imported_two snd_imported create_questions_length
        create_questions_take create_questions_texts)

lemma txt_upload_name: "endswith (filename txt_upload) (u ''.txt'')"
  by (simp add: txt_upload_def endswith_def u_def)

lemma txt_upload_content: "file_content txt_upload = ''a\<newline>\<newline>b\<newline>''"
  by (simp add: txt_upload_def)

lemma import_txt_upload_empty:
  "questions (snd (import_questions ext txt_upload empty_state)) =
     [\<lparr>q_id = 1, q_question_text = u ''a'', q_user_id = 1\<rparr>,
      \<lparr>q_id = 2, q_question_text = u ''b'', q_user_id = 1\<rparr>]"
  by (simp add: import_txt_ab [OF txt_upload_name txt_upload_content] snd_imported
      create_question_questions next_id_def empty_state_def)

theorem import_txt_blank_lines_dropped_witness:
  "endswith (filename txt_upload) (u ''.txt'') \<and>
   file_content txt_upload = ''a\<newline>\<newline>b\<newline>'' \<and>
   fst (import_questions stub_externals txt_upload empty_state) =
     Inr (Message ''Imported 2 questions'') \<and>
   map q_question_text (questions (snd (import_questions stub_externals txt_upload empty_state))) =
     [u ''a'', u ''b'']"
  using import_txt_blank_lines_dropped [OF txt_upload_name txt_upload_content,
      of stub_externals empty_state]
  by (simp add: txt_upload_name txt_upload_content empty_state_def)

theorem import_questions_owner_witness:
  "\<lparr>q_id = 2, q_question_text = u ''b'', q_user_id = 1\<rparr>
     \<in> set (drop (length (questions empty_state))
          (questions (snd (import_questions stub_externals txt_upload empty_state)))) \<and>
   map q_user_id (drop (length (questions empty_state))
          (questions (snd (import_questions stub_externals txt_upload empty_state)))) = [1, 1]"
  using import_questions_owner [of empty_state stub_externals txt_upload]
  by (simp add: import_txt_upload_empty) (simp add: empty_state_def)

text \<open>
  C7.  Importing a file whose name ends neither in \<open>.txt\<close> nor in \<open>.docx\<close> raises
  \<open>HTTPException(400, "Unsupported file format")\<close>, the unsupported-format error, and
  leaves the state, so the question table too, exactly as it was.
\<close>

theorem import_unsupported_format:
  assumes "\<not> endswith (filename f) (u ''.txt'')"
    and "\<not> endswith (filename f) (u ''.docx'')"
  shows "import_questions ext f db =
     (Inl (HTTPException 400 ''Unsupported file format''), db)"
  using assms by (rule import_other)

theorem import_unsupported_format_witness:
  "\<not> endswith (filename pdf_upload) (u ''.txt'') \<and>
   \<not> endswith (filename pdf_upload) (u ''.docx'') \<and>
   import_questions stub_externals pdf_upload empty_state =
     (Inl (HTTPException 400 ''Unsupported file format''), empty_state) \<and>
   questions (snd (import_questions stub_externals pdf_upload empty_state)) = []"
proof -
  have a: "\<not> endswith (filename pdf_upload) (u ''.txt'')"
    by (simp add: pdf_upload_def endswith_def u_def)
  have b: "\<not> endswith (filename pdf_upload) (u ''.docx'')"
    by (simp add: pdf_upload_def endswith_def u_def)
  show ?thesis
    using a b import_unsupported_format [OF a b, of stub_externals empty_state]
    by (simp add: empty_state_def)
qed


section \<open>Registration\<close>

lemma find_append_new:
  "find P xs = None \<Longrightarrow> P x \<Longrightarrow> find P (xs @ [x]) = Some x"
  by (induction xs) (simp_all split: if_splits)

lemma find_None_filter:
  "find P xs = None \<Longrightarrow> filter P xs = []"
  by (induction xs) (simp_all split: if_splits)

lemma register_fresh:
  assumes "get_user_by_email db (uc_email usr) = None"
  shows "register ext usr db =
     (Inr (Message ''User created successfully''),
      db\<lparr>users := users db @
         [\<lparr>u_id = next_id (map u_id (users db)), u_email = uc_email usr,
           u_hashed_password = get_password_hash ext (uc_password usr)\<rparr>]\<rparr>)"
  using assms by (simp add: register_def create_user_def Let_def)

lemma register_taken:
  assumes "get_user_by_email db (uc_email usr) = Some db_user"
  shows "register ext usr db = (Inl (HTTPException 400 ''Email already registered''), db)"
  using assms by (simp add: register_def)

text \<open>
  C8.  Registering one email twice, starting from a store that does not hold it: the
  first call answers \<open>User created successfully\<close> and adds one user with that email;
  the second call, whatever its password, raises
  \<open>HTTPException(400, "Email already registered")\<close>, the already-exists error, and
  leaves the store as the first call left it, with exactly one user of that email.
\<close>

theorem register_twice:
  assumes "get_user_by_email db (uc_email usr) = None"
    and "uc_email usr' = uc_email usr"
  shows "register ext usr db =
       (Inr (Message ''User created successfully''),
        db\<lparr>users := users db @
           [\<lparr>u_id = next_id (map u_id (users db)), u_email = uc_email usr,
             u_hashed_password = get_password_hash ext (uc_password usr)\<rparr>]\<rparr>) \<and>
     register ext usr' (snd (register ext usr db)) =
       (Inl (HTTPException 400 ''Email already registered''), snd (register ext usr db)) \<and>
     length (filter (\<lambda>x. u_email x = uc_email usr) (users (snd (register ext usr db)))) = 1"
proof -
  let ?new = "\<lparr>u_id = next_id (map u_id (users db)), u_email = uc_email usr,
             u_hashed_password = get_password_hash ext (uc_password usr)\<rparr>"
  let ?db1 = "db\<lparr>users := users db @ [?new]\<rparr>"
  have first: "register ext usr db = (Inr (Message ''User created successfully''), ?db1)"
    using assms(1) by (rule register_fresh)
  have absent: "find (\<lambda>x. u_email x = uc_email usr) (users db) = None"
    using assms(1) by (simp add: get_user_by_email_def)
  have "find (\<lambda>x. u_email x = uc_email usr) (users db @ [?new]) = Some ?new"
    using absent by (rule find_append_new) simp
  then have "get_user_by_email ?db1 (uc_email usr') = Some ?new"
    by (simp add: get_user_by_email_def assms(2))
  then have second: "register ext usr' ?db1 =
      (Inl (HTTPException 400 ''Email already registered''), ?db1)"
    by (rule register_taken)
  have once: "length (filter (\<lambda>x. u_email x = uc_email usr) (users ?db1)) = 1"
    using find_None_filter [OF absent] by simp
  show ?thesis
    using second once by (simp add: first)
qed

theorem register_twice_witness:
  "get_user_by_email empty_state (uc_email alice) = None \<and>
   fst (register stub_externals alice empty_state) = Inr (Message ''User created successfully'') \<and>
   map u_email (users (snd (register stub_externals alice empty_state))) = [u ''a@b.c''] \<and>
   fst (register stub_externals alice (snd (register stub_externals alice empty_state))) =
     Inl (HTTPException 400 ''Email already registered'') \<and>
   map u_email (users (snd (register stub_externals alice
       (snd (register stub_externals alice empty_state))))) = [u ''a@b.c'']"
proof -
  let ?first = "register stub_externals alice empty_state"
  have fresh: "get_user_by_email empty_state (uc_email alice) = None"
    by (simp add: get_user_by_email_def empty_state_def)
  note twice = register_twice [OF fresh refl, of stub_externals]
  have first: "?first =
      (Inr (Message ''User created successfully''),
       empty_state\<lparr>users := users empty_state @
          [\<lparr>u_id = next_id (map u_id (users empty_state)), u_email = uc_email alice,
            u_hashed_password = get_password_hash stub_externals (uc_password alice)\<rparr>]\<rparr>)"
    using twice by (rule conjunct1)
  have second: "register stub_externals alice (snd ?first) =
      (Inl (HTTPException 400 ''Email already registered''), snd ?first)"
    using twice by (elim conjE)
  have a: "fst ?first = Inr (Message ''User created successfully'')"
    by (simp only: first fst_conv)
  have b: "map u_email (users (snd ?first)) = [u ''a@b.c'']"
    by (simp only: first snd_conv) (simp add: empty_state_def alice_def)
  have c: "fst (register stub_externals alice (snd ?first)) =
      Inl (HTTPException 400 ''Email already registered'')"
    by (simp only: second fst_conv)
  have d: "map u_email (users (snd (register stub_externals alice (snd ?first)))) = [u ''a@b.c'']"
    by (simp only: second snd_conv b)
  show ?thesis
    by (intro conjI fresh a b c d)
qed


section \<open>Generating answers\<close>

lemma create_answer_state:
  "snd (create_answer db question_id answer_text) =
     db\<lparr>answers := answers db @
        [\<lparr>a_id = next_id (map a_id (answers db)), a_question_id = question_id,
          a_answer_text = answer_text\<rparr>]\<rparr>"
  by (simp add: create_answer_def Let_def)

text \<open>
  C9.  \<open>generate_answer\<close> for an id that no stored question has raises
  \<open>HTTPException(404, "Question not found")\<close> and leaves the state, so the answers too,
  unchanged.  When the question exists and the chat completion yields a first choice,
  exactly one answer is appended: it refers to the question id and stores the text of
  that choice as it came, and the same text is returned.
\<close>

theorem generate_answer_not_found_or_stored:
  "(find (\<lambda>q. q_id q = question_id) (questions db) = None \<longrightarrow>
      generate_answer ext question_id db =
        (Inl (HTTPException 404 ''Question not found''), db)) \<and>
   (find (\<lambda>q. q_id q = question_id) (questions db) = Some q \<longrightarrow>
    ChatCompletion_create ext ''gpt-3.5-turbo'' (q_question_text q) = Some (answer_text # rest) \<longrightarrow>
      generate_answer ext question_id db =
        (Inr (Answer answer_text),
         db\<lparr>answers := answers db @
            [\<lparr>a_id = next_id (map a_id (answers db)), a_question_id = question_id,
              a_answer_text = answer_text\<rparr>]\<rparr>))"
  by (simp add: generate_answer_def create_answer_state)

theorem generate_answer_not_found_or_stored_witness:
  "find (\<lambda>q. q_id q = 5) (questions stored_state) = None \<and>
   generate_answer stub_externals 5 stored_state =
     (Inl (HTTPException 404 ''Question not found''), stored_state) \<and>
   find (\<lambda>q. q_id q = 1) (questions stored_state) =
     Some \<lparr>q_id = 1, q_question_text = u ''a'', q_user_id = 1\<rparr> \<and>
   ChatCompletion_create stub_externals ''gpt-3.5-turbo'' (u ''a'') = Some [u ''aa''] \<and>
   generate_answer stub_externals 1 stored_state =
     (Inr (Answer (u ''aa'')),
      stored_state\<lparr>answers :=
        [\<lparr>a_id = 1, a_question_id = 1, a_answer_text = u ''aa''\<rparr>]\<rparr>)"
proof -
  have none: "find (\<lambda>q. q_id q = 5) (questions stored_state) = None"
    by (simp add: stored_state_def)
  have some: "find (\<lambda>q. q_id q = 1) (questions stored_state) =
      Some \<lparr>q_id = 1, q_question_text = u ''a'', q_user_id = 1\<rparr>"
    by (simp add: stored_state_def)
  have chat: "ChatCompletion_create stub_externals ''gpt-3.5-turbo''
      (q_question_text \<lparr>q_id = 1, q_question_text = u ''a'', q_user_id = 1\<rparr>) = Some [u ''aa'']"
    by (simp add: stub_externals_def u_def)
  have answers0: "answers stored_state = []"
    by (simp add: stored_state_def)
  show ?thesis
    using none some chat
      generate_answer_not_found_or_stored [of 5 stored_state stub_externals]
      generate_answer_not_found_or_stored [of 1 stored_state stub_externals
        "\<lparr>q_id = 1, q_question_text = u ''a'', q_user_id = 1\<rparr>" "u ''aa''" "[]"]
    by (simp add: answers0 next_id_def)
qed


section \<open>Whitespace in imported texts\<close>

lemma strip_decompose:
  "\<exists>a b. s = a @ strip s @ b \<and> list_all isspace a \<and> list_all isspace b"
proof -
  let ?d = "dropWhile isspace s"
  let ?a = "takeWhile isspace s"
  let ?t = "takeWhile isspace (rev ?d)"
  let ?e = "dropWhile isspace (rev ?d)"
  have "rev (?t @ ?e) = ?d"
    by (simp only: takeWhile_dropWhile_id rev_rev_ident)
  then have "rev ?e @ rev ?t = ?d"
    by (simp only: rev_append)
  then have d: "?d = strip s @ rev ?t"
    by (simp only: strip_def)
  have "?a @ ?d = s"
    by (rule takeWhile_dropWhile_id)
  with d have s: "s = ?a @ strip s @ rev ?t"
    by simp
  have a: "list_all isspace ?a"
    by (simp add: list_all_iff) (metis set_takeWhileD)
  have b: "list_all isspace (rev ?t)"
    by (simp add: list_all_iff) (metis set_takeWhileD)
  show ?thesis
    by (rule exI [of _ ?a], rule exI [of _ "rev ?t"]) (intro conjI s a b)
qed

lemma strip_last:
  assumes "strip s \<noteq> []"
  shows "\<not> isspace (last (strip s))"
proof -
  let ?e = "dropWhile isspace (rev (dropWhile isspace s))"
  have ne: "?e \<noteq> []"
    using assms by (simp add: strip_def)
  then have "\<not> isspace (hd ?e)"
    by (rule hd_dropWhile)
  moreover have "last (strip s) = hd ?e"
    using ne by (simp add: strip_def last_rev)
  ultimately show ?thesis by simp
qed

lemma strip_hd:
  assumes "strip s \<noteq> []"
  shows "\<not> isspace (hd (strip s))"
proof -
  let ?d = "dropWhile isspace s"
  let ?t = "takeWhile isspace (rev ?d)"
  let ?e = "dropWhile isspace (rev ?d)"
  have ne: "?e \<noteq> []"
    using assms by (simp add: strip_def)
  then have "last (?t @ ?e) = last ?e"
    by (rule last_appendR)
  then have le: "last (rev ?d) = last ?e"
    by (simp only: takeWhile_dropWhile_id)
  have dne: "?d \<noteq> []"
  proof
    assume empty: "?d = []"
    have "?e = []"
      by (simp only: empty rev.simps dropWhile.simps)
    with ne show False by (rule notE)
  qed
  then have "last (rev ?d) = hd ?d"
    by (simp add: last_rev)
  with le have "last ?e = hd ?d"
    by simp
  moreover have "\<not> isspace (hd ?d)"
    using dne by (rule hd_dropWhile)
  moreover have "hd (strip s) = last ?e"
    using ne by (simp add: strip_def hd_rev)
  ultimately show ?thesis by simp
qed

text \<open>
  C10.  The two formats treat surrounding whitespace differently.  For a \<open>.txt\<close> upload
  that decodes, the texts stored are, in order, the stripped forms of the lines that are
  not blank, where the stripped form of a line is the line without a leading and a
  trailing run of whitespace and, when it is not empty, neither starts nor ends with
  whitespace.  For a \<open>.docx\<close> upload that parses, the texts stored are, in order, the
  paragraphs that are not blank after stripping, each exactly as the parser gave it.
\<close>

theorem import_whitespace_txt_stripped_docx_verbatim:
  "(endswith (filename f) (u ''.txt'') \<longrightarrow> decode_utf8 (file_content f) = Some content \<longrightarrow>
      map q_question_text
        (drop (length (questions db)) (questions (snd (import_questions ext f db)))) =
        map strip (filter (\<lambda>line. strip line \<noteq> []) (split content)) \<and>
      (\<forall>line \<in> set (split content).
         (\<exists>a b. line = a @ strip line @ b \<and> list_all isspace a \<and> list_all isspace b) \<and>
         (strip line \<noteq> [] \<longrightarrow>
            \<not> isspace (hd (strip line)) \<and> \<not> isspace (last (strip line))))) \<and>
   (\<not> endswith (filename f) (u ''.txt'') \<longrightarrow> endswith (filename f) (u ''.docx'') \<longrightarrow>
    Document ext (file_content f) = Some paragraphs \<longrightarrow>
      map q_question_text
        (drop (length (questions db)) (questions (snd (import_questions ext f db)))) =
        filter (\<lambda>para. strip para \<noteq> []) paragraphs)"
proof (intro conjI impI)
  assume is_txt: "endswith (filename f) (u ''.txt'')"
    and decoded: "decode_utf8 (file_content f) = Some content"
  show "map q_question_text
        (drop (length (questions db)) (questions (snd (import_questions ext f db)))) =
        map strip (filter (\<lambda>line. strip line \<noteq> []) (split content))"
    by (simp only: import_txt [OF is_txt decoded] snd_imported create_questions_texts)
next
  show "\<forall>line \<in> set (split content).
         (\<exists>a b. line = a @ strip line @ b \<and> list_all isspace a \<and> list_all isspace b) \<and>
         (strip line \<noteq> [] \<longrightarrow>
            \<not> isspace (hd (strip line)) \<and> \<not> isspace (last (strip line)))"
    using strip_decompose strip_hd strip_last by simp
next
  assume no_txt: "\<not> endswith (filename f) (u ''.txt'')"
    and docx: "endswith (filename f) (u ''.docx'')"
    and parsed: "Document ext (file_content f) = Some paragraphs"
  show "map q_question_text
        (drop (length (questions db)) (questions (snd (import_questions ext f db)))) =
        filter (\<lambda>para. strip para \<noteq> []) paragraphs"
    by (simp only: import_docx [OF no_txt docx parsed] snd_imported create_questions_texts)
qed


lemma padded_lines:
  "map strip (filter (\<lambda>line. strip line \<noteq> []) (split (u ''  x \<newline>   \<newline>y''))) =
     [u ''x'', u ''y'']"
  by (simp add: u_def strip_def isspace_def)

lemma stub_paragraphs:
  "filter (\<lambda>para. strip para \<noteq> []) [u ''  x '', u ''   '', u ''y''] = [u ''  x '', u ''y'']"
  by (simp add: u_def strip_def isspace_def)

theorem import_whitespace_txt_stripped_docx_verbatim_witness:
  "endswith (filename padded_txt_upload) (u ''.txt'') \<and>
   decode_utf8 (file_content padded_txt_upload) = Some (u ''  x \<newline>   \<newline>y'') \<and>
   map q_question_text
     (questions (snd (import_questions stub_externals padded_txt_upload empty_state))) =
     [u ''x'', u ''y''] \<and>
   \<not> endswith (filename docx_upload) (u ''.txt'') \<and>
   endswith (filename docx_upload) (u ''.docx'') \<and>
   Document stub_externals (file_content docx_upload) = Some [u ''  x '', u ''   '', u ''y''] \<and>
   map q_question_text
     (questions (snd (import_questions stub_externals docx_upload empty_state))) =
     [u ''  x '', u ''y'']"
proof -
  have name1: "endswith (filename padded_txt_upload) (u ''.txt'')"
    by (simp add: padded_txt_upload_def endswith_def u_def)
  have decoded: "decode_utf8 (file_content padded_txt_upload) = Some (u ''  x \<newline>   \<newline>y'')"
    by (simp add: padded_txt_upload_def u_def)
  have name2: "\<not> endswith (filename docx_upload) (u ''.txt'')"
    by (simp add: docx_upload_def endswith_def u_def)
  have name3: "endswith (filename docx_upload) (u ''.docx'')"
    by (simp add: docx_upload_def endswith_def u_def)
  have parsed: "Document stub_externals (file_content docx_upload) =
      Some [u ''  x '', u ''   '', u ''y'']"
    by (simp add: stub_externals_def)
  have no_questions: "length (questions empty_state) = 0"
    by (simp add: empty_state_def)
  have stripped: "map q_question_text
      (questions (snd (import_questions stub_externals padded_txt_upload empty_state))) =
      [u ''x'', u ''y'']"
    using import_whitespace_txt_stripped_docx_verbatim
      [of padded_txt_upload "u ''  x \<newline>   \<newline>y''" empty_state stub_externals,
        THEN conjunct1, THEN mp, THEN mp, OF name1 decoded, THEN conjunct1]
    by (simp only: no_questions drop_0 padded_lines)
  have verbatim: "map q_question_text
      (questions (snd (import_questions stub_externals docx_upload empty_state))) =
      [u ''  x '', u ''y'']"
    using import_whitespace_txt_stripped_docx_verbatim
      [of docx_upload _ empty_state stub_externals "[u ''  x '', u ''   '', u ''y'']",
        THEN conjunct2, THEN mp, THEN mp, THEN mp, OF name2 name3 parsed]
    by (simp only: no_questions drop_0 stub_paragraphs)
  show ?thesis
    by (intro conjI name1 decoded stripped name2 name3 parsed verbatim)
qed

end
